theory Spec2Isabelle
  imports Complex_Main
begin

section \<open>Australia Wildfires Dashboard: the aggregation logic\<close>

text \<open>
  The development follows \<^verbatim>\<open>src/logic.py\<close>, \<^verbatim>\<open>src/figures.py\<close> and
  \<^verbatim>\<open>src/callbacks.py\<close>. A pandas data frame is a list of rows in index order; a
  two-column result frame is a list of pairs in row order. The numeric columns are
  float64 in pandas; here they are exact rationals, so the statements below are about
  the arithmetic the code asks for and not about binary rounding error. Missing values
  (NaN) are not part of the model: the loader is expected to deliver a cleaned table.
\<close>

subsection \<open>Values and errors of the host language\<close>

text \<open>
  The year reaches \<^verbatim>\<open>compute_info\<close> either as an integer (the dropdown options are
  integers), as text (the annotated type), or as \<^verbatim>\<open>None\<close> (a cleared dropdown).
\<close>

datatype py_value = PyInt int | PyStr string | PyNone

datatype py_error = ValueError | TypeError

text \<open>
  \<^verbatim>\<open>int(x)\<close>: the identity on integers, a \<^verbatim>\<open>TypeError\<close> on \<^verbatim>\<open>None\<close>, and on text
  the base-10 literal syntax: surrounding white space is ignored, one optional sign,
  then digits which may be separated by single underscores. Anything else is a
  \<^verbatim>\<open>ValueError\<close>. Text is taken to be ASCII.
\<close>

definition py_isspace :: "char \<Rightarrow> bool" where
  "py_isspace c =
     (let n = (of_char c :: nat) in (9 \<le> n \<and> n \<le> 13) \<or> (28 \<le> n \<and> n \<le> 32))"

definition py_isdigit :: "char \<Rightarrow> bool" where
  "py_isdigit c = (let n = (of_char c :: nat) in 48 \<le> n \<and> n \<le> 57)"

definition digit_value :: "char \<Rightarrow> nat" where
  "digit_value c = of_char c - 48"

definition strip :: "string \<Rightarrow> string" where
  "strip s = rev (dropWhile py_isspace (rev (dropWhile py_isspace s)))"

fun digits_from :: "nat \<Rightarrow> string \<Rightarrow> nat option" where
  "digits_from acc [] = Some acc"
| "digits_from acc (c # cs) =
     (if py_isdigit c then digits_from (10 * acc + digit_value c) cs
      else if c = CHR ''_'' then
        (case cs of
           [] \<Rightarrow> None
         | d # ds \<Rightarrow>
             if py_isdigit d then digits_from (10 * acc + digit_value d) ds else None)
      else None)"

definition parse_digits :: "string \<Rightarrow> nat option" where
  "parse_digits s =
     (case s of
        [] \<Rightarrow> None
      | c # cs \<Rightarrow> if py_isdigit c then digits_from (digit_value c) cs else None)"

definition int_of_str :: "string \<Rightarrow> py_error + int" where
  "int_of_str s =
     (let t = strip s;
          (neg, body) =
            (case t of
               [] \<Rightarrow> (False, t)
             | c # cs \<Rightarrow>
                 if c = CHR ''-'' then (True, cs)
                 else if c = CHR ''+'' then (False, cs)
                 else (False, t))
      in case parse_digits body of
           None \<Rightarrow> Inl ValueError
         | Some n \<Rightarrow> Inr (if neg then - int n else int n))"

fun py_int :: "py_value \<Rightarrow> py_error + int" where
  "py_int (PyInt n) = Inr n"
| "py_int (PyStr s) = int_of_str s"
| "py_int PyNone = Inl TypeError"

subsection \<open>The dataset\<close>

record row =
  Region :: string
  Year :: int
  Month_name :: string
  Estimated_fire_area :: rat
  Count :: rat

type_synonym data_frame = "row list"

text \<open>A result frame after \<^verbatim>\<open>reset_index()\<close>: the month column and one value column.\<close>

type_synonym month_frame = "(string \<times> rat) list"

subsection \<open>The pandas operations that \<^verbatim>\<open>compute_info\<close> uses\<close>

text \<open>
  \<^verbatim>\<open>groupby(key, sort=False)\<close> walks the rows in order. A row whose key has been seen
  joins that key's group; a row with a new key opens a group after all existing ones.
\<close>

fun add_to_group :: "'k \<Rightarrow> 'r \<Rightarrow> ('k \<times> 'r list) list \<Rightarrow> ('k \<times> 'r list) list" where
  "add_to_group k r [] = [(k, [r])]"
| "add_to_group k r ((k', g) # gs) =
     (if k' = k then (k', g @ [r]) # gs else (k', g) # add_to_group k r gs)"

definition groupby_unsorted :: "('r \<Rightarrow> 'k) \<Rightarrow> 'r list \<Rightarrow> ('k \<times> 'r list) list" where
  "groupby_unsorted key rows = foldl (\<lambda>gs r. add_to_group (key r) r gs) [] rows"

text \<open>
  \<^verbatim>\<open>mean()\<close> of one group. Every group that \<^verbatim>\<open>groupby\<close> produces has at least one
  row, so the division is never by zero.
\<close>

definition mean :: "rat list \<Rightarrow> rat" where
  "mean xs = sum_list xs / of_nat (length xs)"

text \<open>
  \<^verbatim>\<open>round(0)\<close> is numpy's rounding: to the nearest integer, a tie going to the even
  neighbour. The result stays in the value column's numeric type.
\<close>

definition round_half_even :: "rat \<Rightarrow> int" where
  "round_half_even q =
     (let f = \<lfloor>q\<rfloor>; d = q - of_int f
      in if d < 1 / 2 then f
         else if 1 / 2 < d then f + 1
         else if even f then f else f + 1)"

definition round0 :: "rat \<Rightarrow> rat" where
  "round0 q = of_int (round_half_even q)"

definition group_mean :: "('r \<Rightarrow> rat) \<Rightarrow> ('k \<times> 'r list) list \<Rightarrow> ('k \<times> rat) list" where
  "group_mean col gs = map (\<lambda>(k, g). (k, mean (map col g))) gs"

definition round_column :: "('k \<times> rat) list \<Rightarrow> ('k \<times> rat) list" where
  "round_column t = map (\<lambda>(k, v). (k, round0 v)) t"

definition column_sum :: "('k \<times> rat) list \<Rightarrow> rat" where
  "column_sum t = sum_list (map snd t)"

subsection \<open>\<^verbatim>\<open>compute_info\<close>\<close>

text \<open>The boolean mask of line 48, for a year that has already been cast.\<close>

definition selected :: "string \<Rightarrow> int \<Rightarrow> row \<Rightarrow> bool" where
  "selected entered_region y r = (Region r = entered_region \<and> Year r = y)"

definition compute_info ::
  "data_frame \<Rightarrow> string \<Rightarrow> py_value \<Rightarrow> py_error + (month_frame \<times> rat \<times> month_frame \<times> rat)" where
  "compute_info data entered_region entered_year =
     (case py_int entered_year of
        Inl e \<Rightarrow> Inl e
      | Inr y \<Rightarrow>
          (let df = filter (selected entered_region y) data;
               avg_fire_area = group_mean Estimated_fire_area (groupby_unsorted Month_name df);
               total_area = column_sum avg_fire_area;
               avg_count_pixels =
                 round_column (group_mean Count (groupby_unsorted Month_name df));
               total_pixels = column_sum avg_count_pixels
           in Inr (avg_fire_area, total_area, avg_count_pixels, total_pixels)))"

subsection \<open>Text formatting of the host language\<close>

definition digit_char :: "nat \<Rightarrow> char" where
  "digit_char d = ''0123456789'' ! d"

fun show_nat :: "nat \<Rightarrow> string" where
  "show_nat n =
     (if n < 10 then [digit_char n] else show_nat (n div 10) @ [digit_char (n mod 10)])"

declare show_nat.simps [simp del]

definition show_int :: "int \<Rightarrow> string" where
  "show_int i = (if i < 0 then ''-'' @ show_nat (nat (- i)) else show_nat (nat i))"

text \<open>\<^verbatim>\<open>str(x)\<close> for the values a selection can carry.\<close>

fun py_str :: "py_value \<Rightarrow> string" where
  "py_str (PyInt n) = show_int n"
| "py_str (PyStr s) = s"
| "py_str PyNone = ''None''"

text \<open>\<^verbatim>\<open>int(x)\<close> on a number of the value column: the fractional part is cut off.\<close>

definition py_trunc :: "rat \<Rightarrow> int" where
  "py_trunc q = (if 0 \<le> q then \<lfloor>q\<rfloor> else \<lceil>q\<rceil>)"

text \<open>The format \<^verbatim>\<open>{x:.2f}\<close>: two decimals, the nearest such number, ties to even.\<close>

definition format_2f :: "rat \<Rightarrow> string" where
  "format_2f q =
     (let n = nat (round_half_even (\<bar>q\<bar> * 100))
      in (if q < 0 then ''-'' else []) @ show_nat (n div 100) @ ''.'' @
         [digit_char (n div 10 mod 10), digit_char (n mod 10)])"

subsection \<open>The chart builders\<close>

text \<open>
  A figure is recorded by the parts that depend on the arguments. The styling that
  \<^verbatim>\<open>update_layout\<close> and \<^verbatim>\<open>update_traces\<close> add is the same for every call and is
  left out. \<^verbatim>\<open>unique()\<close> keeps the first appearance of every value.
\<close>

definition unique :: "'a list \<Rightarrow> 'a list" where
  "unique xs = foldl (\<lambda>seen x. if x \<in> set seen then seen else seen @ [x]) [] xs"

record donut_figure =
  pie_values :: "rat list"
  pie_names :: "string list"
  category_orders :: "string list"
  hole :: rat
  center_annotation :: string

record bar_figure =
  bar_x :: "string list"
  bar_y :: "rat list"
  top_annotation :: string

definition generate_donut :: "month_frame \<Rightarrow> rat \<Rightarrow> donut_figure" where
  "generate_donut df total_area =
     \<lparr>pie_values = map snd df,
      pie_names = unique (map fst df),
      category_orders = unique (map fst df),
      hole = 4 / 10,
      center_annotation = ''<b>Total</b>:<br>'' @ format_2f total_area @ '' km'' @ [CHR 0xB2]\<rparr>"

definition generate_bar :: "month_frame \<Rightarrow> rat \<Rightarrow> bar_figure" where
  "generate_bar df total_pixels =
     \<lparr>bar_x = map fst df,
      bar_y = map snd df,
      top_annotation =
        ''<b>Total number of pixels</b>: '' @ show_int (py_trunc total_pixels) @ '' pixels''\<rparr>"

subsection \<open>The callbacks\<close>

text \<open>
  \<^verbatim>\<open>register_callbacks\<close> declares two callbacks on the application. Each one names
  the component properties it writes and the ones it listens to, and carries the
  function that computes the new values. A function that raises writes nothing.
\<close>

datatype prop_value = Figure_donut donut_figure | Figure_bar bar_figure | Children string

type_synonym prop_id = "string \<times> string"

type_synonym page = "prop_id \<rightharpoonup> prop_value"

record callback =
  outputs :: "prop_id list"
  inputs :: "prop_id list"
  handler :: "string \<Rightarrow> py_value \<Rightarrow> py_error + prop_value list"

definition get_graph :: "data_frame \<Rightarrow> string \<Rightarrow> py_value \<Rightarrow> py_error + prop_value list" where
  "get_graph df entered_region entered_year =
     (case compute_info df entered_region entered_year of
        Inl e \<Rightarrow> Inl e
      | Inr (avg_fire_area, total_area, avg_count_pixels, total_pixels) \<Rightarrow>
          Inr [Figure_donut (generate_donut avg_fire_area total_area),
               Figure_bar (generate_bar avg_count_pixels total_pixels)])"

definition get_title :: "string \<Rightarrow> py_value \<Rightarrow> py_error + prop_value list" where
  "get_title entered_region entered_year =
     (let pie_title =
            entered_region @ '': Monthly Average Estimated Fire Area in Year '' @
            py_str entered_year @ ''.'';
          bar_title =
            entered_region @
            '': Monthly Average Count of Pixels for Presumed Vegetation Fires in Year '' @
            py_str entered_year @ ''.''
      in Inr [Children pie_title, Children bar_title])"

definition graph_callback :: "data_frame \<Rightarrow> callback" where
  "graph_callback df =
     \<lparr>outputs = [(''pie-chart'', ''figure''), (''bar-chart'', ''figure'')],
      inputs = [(''region-items'', ''value''), (''year-items'', ''value'')],
      handler = get_graph df\<rparr>"

definition title_callback :: callback where
  "title_callback =
     \<lparr>outputs = [(''pie-title'', ''children''), (''bar-title'', ''children'')],
      inputs = [(''region-items'', ''value''), (''year-items'', ''value'')],
      handler = get_title\<rparr>"

definition register_callbacks :: "data_frame \<Rightarrow> callback list" where
  "register_callbacks df = [graph_callback df, title_callback]"

text \<open>
  One reaction of the page: a callback runs on the current selection and its outputs,
  and only they, receive the values it returns. \<^verbatim>\<open>react\<close> lets several callbacks
  answer one after the other; every page in between is one the user can see.
\<close>

definition apply_callback :: "callback \<Rightarrow> string \<Rightarrow> py_value \<Rightarrow> page \<Rightarrow> page" where
  "apply_callback cb entered_region entered_year pg =
     (case handler cb entered_region entered_year of
        Inl e \<Rightarrow> pg
      | Inr vs \<Rightarrow> pg ++ map_of (zip (outputs cb) vs))"

definition react :: "callback list \<Rightarrow> string \<Rightarrow> py_value \<Rightarrow> page \<Rightarrow> page" where
  "react cbs entered_region entered_year pg =
     foldl (\<lambda>p cb. apply_callback cb entered_region entered_year p) pg cbs"

text \<open>The page on which every registered callback has answered the selection.\<close>

definition settled :: "data_frame \<Rightarrow> string \<Rightarrow> py_value \<Rightarrow> page" where
  "settled df entered_region entered_year =
     react (register_callbacks df) entered_region entered_year Map.empty"

definition all_outputs :: "prop_id list" where
  "all_outputs =
     [(''pie-chart'', ''figure''), (''bar-chart'', ''figure''),
      (''pie-title'', ''children''), (''bar-title'', ''children'')]"

subsection \<open>The fixed option lists\<close>



subsection \<open>Reference notions used to state the properties\<close>

text \<open>
  The distinct elements of a list in the order in which each one first appears.
\<close>

primrec first_occurrences :: "'a list \<Rightarrow> 'a list" where
  "first_occurrences [] = []"
| "first_occurrences (x # xs) = x # removeAll x (first_occurrences xs)"

text \<open>The rows of the dataset that a selection is about, and those of one month.\<close>

definition matching :: "data_frame \<Rightarrow> string \<Rightarrow> int \<Rightarrow> data_frame" where
  "matching data entered_region y =
     [r \<leftarrow> data. Region r = entered_region \<and> Year r = y]"

definition of_month :: "string \<Rightarrow> data_frame \<Rightarrow> data_frame" where
  "of_month m rows = [r \<leftarrow> rows. Month_name r = m]"

definition months_seen :: "data_frame \<Rightarrow> string list" where
  "months_seen rows = first_occurrences (map Month_name rows)"

text \<open>
  The monthly aggregate as the specification words it: for every month, in
  first-occurrence order, the arithmetic mean of a column over that month's rows.
\<close>

definition monthly_mean :: "(row \<Rightarrow> rat) \<Rightarrow> data_frame \<Rightarrow> month_frame" where
  "monthly_mean col rows =
     map (\<lambda>m. (m, mean (map col (of_month m rows)))) (months_seen rows)"

text \<open>What grouping in first-occurrence order means, stated without a loop.\<close>

definition grouped :: "('r \<Rightarrow> 'k) \<Rightarrow> 'r list \<Rightarrow> ('k \<times> 'r list) list" where
  "grouped key rows =
     map (\<lambda>k. (k, [r \<leftarrow> rows. key r = k])) (first_occurrences (map key rows))"

subsection \<open>Example datasets\<close>

definition mk_row :: "string \<Rightarrow> int \<Rightarrow> string \<Rightarrow> rat \<Rightarrow> rat \<Rightarrow> row" where
  "mk_row reg y m a c =
     \<lparr>Region = reg, Year = y, Month_name = m, Estimated_fire_area = a, Count = c\<rparr>"

definition scenario_data :: data_frame where
  "scenario_data =
     [mk_row ''NSW'' 2019 ''Jan'' 10 100,
      mk_row ''NSW'' 2019 ''Jan'' 20 300,
      mk_row ''NSW'' 2019 ''Feb'' 5 50]"

definition mixed_data :: data_frame where
  "mixed_data =
     [mk_row ''NSW'' 2019 ''Mar'' 4 3,
      mk_row ''VIC'' 2019 ''Jan'' 100 1000,
      mk_row ''NSW'' 2020 ''Jan'' 7 9,
      mk_row ''NSW'' 2019 ''Jan'' 1 2,
      mk_row ''NSW'' 2019 ''Mar'' 5 4,
      mk_row ''ACT'' 1999 ''Dec'' 2 6,
      mk_row ''NSW'' 2019 ''Jan'' 3 1]"

section \<open>Properties\<close>

subsection \<open>Grouping in first-occurrence order\<close>

lemma first_occurrences_set [simp]: "set (first_occurrences xs) = set xs"
  by (induction xs) auto

lemma first_occurrences_distinct [simp]: "distinct (first_occurrences xs)"
  by (induction xs) (auto simp: distinct_removeAll)

lemma first_occurrences_snoc:
  "first_occurrences (xs @ [x]) =
     (if x \<in> set xs then first_occurrences xs else first_occurrences xs @ [x])"
  by (induction xs) auto

lemma add_to_group_map:
  "distinct ks \<Longrightarrow>
   add_to_group k r (map (\<lambda>k'. (k', G k')) ks) =
     (if k \<in> set ks then map (\<lambda>k'. (k', if k' = k then G k' @ [r] else G k')) ks
      else map (\<lambda>k'. (k', G k')) ks @ [(k, [r])])"
  by (induction ks) auto

lemma grouped_snoc:
  "add_to_group (key r) r (grouped key pre) = grouped key (pre @ [r])"
proof (cases "key r \<in> set (map key pre)")
  case True
  then show ?thesis
    by (simp add: grouped_def add_to_group_map first_occurrences_snoc)
next
  case False
  then have ne: "\<forall>x \<in> set pre. key x \<noteq> key r \<and> key r \<noteq> key x"
    by (metis image_eqI set_map)
  then have "[x \<leftarrow> pre. key x = key r] = []"
    by (simp add: filter_empty_conv)
  with False ne show ?thesis
    by (simp add: grouped_def add_to_group_map first_occurrences_snoc)
qed

lemma foldl_grouped:
  "foldl (\<lambda>gs r. add_to_group (key r) r gs) (grouped key pre) rows = grouped key (pre @ rows)"
proof (induction rows arbitrary: pre)
  case Nil
  show ?case by simp
next
  case (Cons r rows)
  show ?case using Cons.IH [of "pre @ [r]"] by (simp add: grouped_snoc)
qed

lemma groupby_unsorted_grouped: "groupby_unsorted key rows = grouped key rows"
  using foldl_grouped [of key "[]" rows] by (simp add: groupby_unsorted_def grouped_def)

lemma group_mean_groupby:
  "group_mean col (groupby_unsorted Month_name rows) = monthly_mean col rows"
  by (simp add: group_mean_def groupby_unsorted_grouped grouped_def monthly_mean_def
      months_seen_def of_month_def comp_def)

lemma selected_matching: "filter (selected reg y) data = matching data reg y"
  by (simp add: matching_def selected_def [abs_def])

lemma compute_info_cast:
  assumes "py_int entered_year = Inr y"
  shows "compute_info data reg entered_year =
           Inr (monthly_mean Estimated_fire_area (matching data reg y),
                column_sum (monthly_mean Estimated_fire_area (matching data reg y)),
                round_column (monthly_mean Count (matching data reg y)),
                column_sum (round_column (monthly_mean Count (matching data reg y))))"
  using assms by (simp add: compute_info_def Let_def group_mean_groupby selected_matching)

lemma compute_info_error:
  "py_int entered_year = Inl e \<Longrightarrow> compute_info data reg entered_year = Inl e"
  by (simp add: compute_info_def)

lemma round_half_even_cases:
  fixes q :: rat
  defines "d \<equiv> q - of_int \<lfloor>q\<rfloor>"
  shows "0 \<le> d" and "d < 1"
    and "d < 1 / 2 \<Longrightarrow> round_half_even q = \<lfloor>q\<rfloor>"
    and "1 / 2 < d \<Longrightarrow> round_half_even q = \<lfloor>q\<rfloor> + 1"
    and "d = 1 / 2 \<Longrightarrow> even \<lfloor>q\<rfloor> \<Longrightarrow> round_half_even q = \<lfloor>q\<rfloor>"
    and "d = 1 / 2 \<Longrightarrow> odd \<lfloor>q\<rfloor> \<Longrightarrow> round_half_even q = \<lfloor>q\<rfloor> + 1"
proof -
  show "0 \<le> d" unfolding d_def by linarith
  show "d < 1" unfolding d_def by linarith
qed (simp_all add: round_half_even_def Let_def d_def)

lemma round_half_even_near: "\<bar>of_int (round_half_even q) - q\<bar> \<le> 1 / 2"
proof -
  define d where "d = q - of_int \<lfloor>q\<rfloor>"
  note c = round_half_even_cases [of q, folded d_def]
  consider "d < 1 / 2" | "1 / 2 < d" | "d = 1 / 2" by linarith
  then show ?thesis
  proof cases
    case 1
    with c(1) c(3) show ?thesis by (simp add: d_def)
  next
    case 2
    with c(2) c(4) show ?thesis by (simp add: d_def)
  next
    case 3
    show ?thesis
    proof (cases "even \<lfloor>q\<rfloor>")
      case True
      with 3 c(5) show ?thesis by (simp add: d_def)
    next
      case False
      with 3 c(6) show ?thesis by (simp add: d_def)
    qed
  qed
qed

lemma round_half_even_tie:
  assumes "\<bar>of_int (round_half_even q) - q\<bar> = 1 / 2"
  shows "even (round_half_even q)"
proof -
  define d where "d = q - of_int \<lfloor>q\<rfloor>"
  note c = round_half_even_cases [of q, folded d_def]
  consider "d < 1 / 2" | "1 / 2 < d" | "d = 1 / 2" by linarith
  then show ?thesis
  proof cases
    case 1
    with c(1) c(3) assms show ?thesis by (simp add: d_def)
  next
    case 2
    with c(2) c(4) assms show ?thesis by (simp add: d_def)
  next
    case 3
    show ?thesis
    proof (cases "even \<lfloor>q\<rfloor>")
      case True
      with 3 c(5) show ?thesis by simp
    next
      case False
      with 3 c(6) show ?thesis by simp
    qed
  qed
qed


lemma column_sum_round_column:
  "column_sum (round_column t) = of_int (sum_list (map (\<lambda>(k, v). round_half_even v) t))"
  by (induction t) (auto simp: column_sum_def round_column_def round0_def)

lemma py_trunc_of_int: "py_trunc (of_int k) = k"
  by (simp add: py_trunc_def)



lemma map_fst_monthly_mean: "map fst (monthly_mean col rows) = months_seen rows"
  by (simp add: monthly_mean_def comp_def)

lemma map_fst_round_column: "map fst (round_column t) = map fst t"
  by (induction t) (auto simp: round_column_def)

lemma compute_info_results:
  assumes "py_int entered_year = Inr y"
    and "compute_info data reg entered_year = Inr (A, ta, C, tp)"
  shows "A = monthly_mean Estimated_fire_area (matching data reg y)"
    and "ta = column_sum A"
    and "C = round_column (monthly_mean Count (matching data reg y))"
    and "tp = column_sum C"
  using assms by (auto simp: compute_info_cast)

lemma compute_info_Inr_cast:
  assumes "compute_info data reg entered_year = Inr res"
  obtains y where "py_int entered_year = Inr y"
  using assms by (cases "py_int entered_year") (simp_all add: compute_info_def)


subsection \<open>Evaluations on the example data\<close>

lemma mixed_data_2019:
  "compute_info mixed_data ''NSW'' (PyInt 2019) =
     Inr ([(''Mar'', 9 / 2), (''Jan'', 2)], 13 / 2, [(''Mar'', 4), (''Jan'', 2)], 6)"
  by code_simp

lemma mixed_data_2019_text:
  "compute_info mixed_data ''NSW'' (PyStr ''2019'') =
     Inr ([(''Mar'', 9 / 2), (''Jan'', 2)], 13 / 2, [(''Mar'', 4), (''Jan'', 2)], 6)"
  by code_simp

lemma mixed_data_2020:
  "compute_info mixed_data ''NSW'' (PyInt 2020) =
     Inr ([(''Jan'', 7)], 7, [(''Jan'', 9)], 9)"
  by code_simp

lemma round_half_even_five_halves:
  "\<bar>rat_of_int (round_half_even (5 / 2)) - 5 / 2\<bar> = 1 / 2 \<and> round_half_even (5 / 2) = 2"
proof -
  have "\<lfloor>5 / 2 :: rat\<rfloor> = 2"
    by (rule floor_unique) simp_all
  then show ?thesis
    by (simp add: round_half_even_def Let_def)
qed

subsection \<open>The claims about \<^verbatim>\<open>compute_info\<close>\<close>

text \<open>
  C1. The pixel total that \<^verbatim>\<open>compute_info\<close> returns is the sum, over the months of
  the selected rows, of the monthly mean pixel count rounded to an integer: each mean is
  rounded first and the rounded numbers are added. The rounding is to the nearest
  integer, and a mean exactly half way between two integers goes to the even one.
\<close>

theorem total_pixels_sum_of_rounded_means:
  assumes "py_int entered_year = Inr y"
    and "compute_info data reg entered_year =
           Inr (avg_fire_area, total_area, avg_count_pixels, total_pixels)"
  shows "total_pixels =
           (\<Sum>m \<leftarrow> months_seen (matching data reg y).
              of_int (round_half_even (mean (map Count (of_month m (matching data reg y))))))
         \<and> (\<forall>q. \<bar>of_int (round_half_even q) - q\<bar> \<le> 1 / 2
              \<and> (\<bar>of_int (round_half_even q) - q\<bar> = 1 / 2 \<longrightarrow> even (round_half_even q)))"
proof -
  from compute_info_results [OF assms]
  have "total_pixels = column_sum (round_column (monthly_mean Count (matching data reg y)))"
    by simp
  also have "\<dots> = (\<Sum>m \<leftarrow> months_seen (matching data reg y).
              of_int (round_half_even (mean (map Count (of_month m (matching data reg y))))))"
    by (simp add: column_sum_def round_column_def monthly_mean_def round0_def comp_def)
  finally show ?thesis
    using round_half_even_near round_half_even_tie by blast
qed

theorem total_pixels_sum_of_rounded_means_witness:
  "py_int (PyInt 2019) = Inr 2019
   \<and> compute_info mixed_data ''NSW'' (PyInt 2019) =
       Inr ([(''Mar'', 9 / 2), (''Jan'', 2)], 13 / 2, [(''Mar'', 4), (''Jan'', 2)], 6)
   \<and> (6 :: rat) =
       (\<Sum>m \<leftarrow> months_seen (matching mixed_data ''NSW'' 2019).
          of_int (round_half_even (mean (map Count (of_month m (matching mixed_data ''NSW'' 2019))))))
   \<and> round_half_even
       (\<Sum>m \<leftarrow> months_seen (matching mixed_data ''NSW'' 2019).
          mean (map Count (of_month m (matching mixed_data ''NSW'' 2019)))) = 5
   \<and> \<bar>rat_of_int (round_half_even (5 / 2)) - 5 / 2\<bar> = 1 / 2
   \<and> even (round_half_even (5 / 2))"
proof -
  have c: "py_int (PyInt 2019) = Inr 2019" by simp
  note t = total_pixels_sum_of_rounded_means [OF c mixed_data_2019]
  have r: "round_half_even
       (\<Sum>m \<leftarrow> months_seen (matching mixed_data ''NSW'' 2019).
          mean (map Count (of_month m (matching mixed_data ''NSW'' 2019)))) = 5"
    by code_simp
  from t round_half_even_five_halves have "even (round_half_even (5 / 2))"
    by blast
  with t c mixed_data_2019 r round_half_even_five_halves show ?thesis
    by blast
qed

text \<open>
  C2. The area total that \<^verbatim>\<open>compute_info\<close> returns is the sum of the value column of
  the monthly fire-area table it returns, and that column holds the monthly means of the
  selected rows.
\<close>

theorem total_area_sum_of_monthly_means:
  assumes "py_int entered_year = Inr y"
    and "compute_info data reg entered_year =
           Inr (avg_fire_area, total_area, avg_count_pixels, total_pixels)"
  shows "total_area = sum_list (map snd avg_fire_area)
       \<and> avg_fire_area =
           map (\<lambda>m. (m, mean (map Estimated_fire_area (of_month m (matching data reg y)))))
             (months_seen (matching data reg y))"
  using compute_info_results [OF assms]
  by (simp add: column_sum_def monthly_mean_def)

theorem total_area_sum_of_monthly_means_witness:
  "py_int (PyInt 2019) = Inr 2019
   \<and> compute_info mixed_data ''NSW'' (PyInt 2019) =
       Inr ([(''Mar'', 9 / 2), (''Jan'', 2)], 13 / 2, [(''Mar'', 4), (''Jan'', 2)], 6)
   \<and> (13 / 2 :: rat) = sum_list (map snd [(''Mar'', 9 / 2 :: rat), (''Jan'', 2)])"
proof -
  have c: "py_int (PyInt 2019) = Inr 2019" by simp
  from total_area_sum_of_monthly_means [OF c mixed_data_2019] c mixed_data_2019
  show ?thesis by blast
qed

text \<open>
  C3. In both tables that \<^verbatim>\<open>compute_info\<close> returns, the months stand in the order
  in which each month first appears among the selected rows of the dataset.
\<close>

theorem months_in_first_occurrence_order:
  assumes "py_int entered_year = Inr y"
    and "compute_info data reg entered_year =
           Inr (avg_fire_area, total_area, avg_count_pixels, total_pixels)"
  shows "map fst avg_fire_area =
           first_occurrences (map Month_name [r \<leftarrow> data. Region r = reg \<and> Year r = y])
       \<and> map fst avg_count_pixels =
           first_occurrences (map Month_name [r \<leftarrow> data. Region r = reg \<and> Year r = y])"
  using compute_info_results [OF assms]
  by (simp add: map_fst_monthly_mean map_fst_round_column months_seen_def matching_def)

theorem months_in_first_occurrence_order_witness:
  "py_int (PyStr ''2019'') = Inr 2019
   \<and> compute_info mixed_data ''NSW'' (PyStr ''2019'') =
       Inr ([(''Mar'', 9 / 2), (''Jan'', 2)], 13 / 2, [(''Mar'', 4), (''Jan'', 2)], 6)
   \<and> map fst [(''Mar'', 9 / 2 :: rat), (''Jan'', 2)] =
       first_occurrences
         (map Month_name [r \<leftarrow> mixed_data. Region r = ''NSW'' \<and> Year r = 2019])
   \<and> first_occurrences
         (map Month_name [r \<leftarrow> mixed_data. Region r = ''NSW'' \<and> Year r = 2019]) =
       [''Mar'', ''Jan'']"
proof -
  have c: "py_int (PyStr ''2019'') = Inr 2019" by code_simp
  have f: "first_occurrences
         (map Month_name [r \<leftarrow> mixed_data. Region r = ''NSW'' \<and> Year r = 2019]) =
       [''Mar'', ''Jan'']"
    by code_simp
  from months_in_first_occurrence_order [OF c mixed_data_2019_text] c mixed_data_2019_text f
  show ?thesis by blast
qed

text \<open>
  C4. \<^verbatim>\<open>compute_info\<close> aggregates the rows whose region is the selected region and
  whose year is the selected year after the cast to an integer, and nothing else: its
  result is the aggregate of exactly these rows, so two datasets with the same selected
  rows give the same result whatever their other rows are.
\<close>

theorem aggregates_exactly_selected_rows:
  assumes "py_int entered_year = Inr y"
  shows "compute_info data reg entered_year =
           Inr (monthly_mean Estimated_fire_area [r \<leftarrow> data. Region r = reg \<and> Year r = y],
                column_sum
                  (monthly_mean Estimated_fire_area [r \<leftarrow> data. Region r = reg \<and> Year r = y]),
                round_column (monthly_mean Count [r \<leftarrow> data. Region r = reg \<and> Year r = y]),
                column_sum
                  (round_column
                     (monthly_mean Count [r \<leftarrow> data. Region r = reg \<and> Year r = y])))
       \<and> (\<forall>data'.
             [r \<leftarrow> data'. Region r = reg \<and> Year r = y] =
             [r \<leftarrow> data. Region r = reg \<and> Year r = y]
             \<longrightarrow> compute_info data' reg entered_year = compute_info data reg entered_year)"
  using assms by (simp add: compute_info_cast matching_def)

theorem aggregates_exactly_selected_rows_witness:
  "py_int (PyStr ''2019'') = Inr 2019
   \<and> [r \<leftarrow> mixed_data. Region r = ''NSW'' \<and> Year r = 2019] =
       [mk_row ''NSW'' 2019 ''Mar'' 4 3, mk_row ''NSW'' 2019 ''Jan'' 1 2,
        mk_row ''NSW'' 2019 ''Mar'' 5 4, mk_row ''NSW'' 2019 ''Jan'' 3 1]
   \<and> compute_info
         [mk_row ''NSW'' 2019 ''Mar'' 4 3, mk_row ''NSW'' 2019 ''Jan'' 1 2,
          mk_row ''NSW'' 2019 ''Mar'' 5 4, mk_row ''NSW'' 2019 ''Jan'' 3 1]
         ''NSW'' (PyStr ''2019'') =
       compute_info mixed_data ''NSW'' (PyStr ''2019'')"
proof -
  have c: "py_int (PyStr ''2019'') = Inr 2019" by code_simp
  have f: "[r \<leftarrow> mixed_data. Region r = ''NSW'' \<and> Year r = 2019] =
       [mk_row ''NSW'' 2019 ''Mar'' 4 3, mk_row ''NSW'' 2019 ''Jan'' 1 2,
        mk_row ''NSW'' 2019 ''Mar'' 5 4, mk_row ''NSW'' 2019 ''Jan'' 3 1]"
    by (simp add: mixed_data_def mk_row_def)
  have g: "[r \<leftarrow> [mk_row ''NSW'' 2019 ''Mar'' 4 3, mk_row ''NSW'' 2019 ''Jan'' 1 2,
        mk_row ''NSW'' 2019 ''Mar'' 5 4, mk_row ''NSW'' 2019 ''Jan'' 3 1].
          Region r = ''NSW'' \<and> Year r = 2019] =
       [r \<leftarrow> mixed_data. Region r = ''NSW'' \<and> Year r = 2019]"
    by (simp add: mixed_data_def mk_row_def)
  from aggregates_exactly_selected_rows [OF c, of mixed_data "''NSW''"] g
  have "compute_info
         [mk_row ''NSW'' 2019 ''Mar'' 4 3, mk_row ''NSW'' 2019 ''Jan'' 1 2,
          mk_row ''NSW'' 2019 ''Mar'' 5 4, mk_row ''NSW'' 2019 ''Jan'' 3 1]
         ''NSW'' (PyStr ''2019'') =
       compute_info mixed_data ''NSW'' (PyStr ''2019'')"
    by blast
  with c f show ?thesis by blast
qed

text \<open>
  C5. The three-row scenario of the specification: two January rows and one February
  row of NSW in 2019. The selection is given once as the integer the dropdown delivers
  and once as text.
\<close>

theorem scenario_three_rows:
  "compute_info scenario_data ''NSW'' (PyInt 2019) =
     Inr ([(''Jan'', 15), (''Feb'', 5)], 20, [(''Jan'', 200), (''Feb'', 50)], 250)
   \<and> compute_info scenario_data ''NSW'' (PyStr ''2019'') =
     Inr ([(''Jan'', 15), (''Feb'', 5)], 20, [(''Jan'', 200), (''Feb'', 50)], 250)"
  by code_simp







subsection \<open>The pixel total in the bar chart\<close>

text \<open>
  C10. The pixel total that \<^verbatim>\<open>compute_info\<close> returns is an integer, so the
  conversion \<^verbatim>\<open>int(total_pixels)\<close> in the annotation of \<^verbatim>\<open>generate_bar\<close> cuts
  nothing off: the annotation shows the total itself.
\<close>

theorem total_pixels_integral:
  assumes "compute_info data reg entered_year =
           Inr (avg_fire_area, total_area, avg_count_pixels, total_pixels)"
  shows "\<exists>k. total_pixels = of_int k \<and> py_trunc total_pixels = k \<and>
           top_annotation (generate_bar avg_count_pixels total_pixels) =
             ''<b>Total number of pixels</b>: '' @ show_int k @ '' pixels''"
proof -
  obtain y where y: "py_int entered_year = Inr y"
    using assms by (rule compute_info_Inr_cast)
  define k where
    "k = sum_list (map (\<lambda>(m, v). round_half_even v) (monthly_mean Count (matching data reg y)))"
  from compute_info_results [OF y assms] have "total_pixels = of_int k"
    by (simp add: column_sum_round_column k_def)
  then show ?thesis
    by (simp add: py_trunc_of_int generate_bar_def)
qed

theorem total_pixels_integral_witness:
  "compute_info mixed_data ''NSW'' (PyInt 2019) =
     Inr ([(''Mar'', 9 / 2), (''Jan'', 2)], 13 / 2, [(''Mar'', 4), (''Jan'', 2)], 6)
   \<and> py_trunc 6 = 6
   \<and> top_annotation (generate_bar [(''Mar'', 4), (''Jan'', 2)] 6) =
       ''<b>Total number of pixels</b>: 6 pixels''"
proof -
  from total_pixels_integral [OF mixed_data_2019]
  obtain k where k: "(6 :: rat) = of_int k" "py_trunc 6 = k"
    "top_annotation (generate_bar [(''Mar'', 4), (''Jan'', 2)] 6) =
       ''<b>Total number of pixels</b>: '' @ show_int k @ '' pixels''"
    by blast
  have "rat_of_int 6 = 6" by simp
  with k(1) have "k = 6" by (metis of_int_eq_iff)
  moreover have "show_int 6 = ''6''" by code_simp
  ultimately show ?thesis
    using k mixed_data_2019 by simp
qed

subsection \<open>The reaction to a change of selection\<close>

lemma get_graph_cast:
  assumes "py_int entered_year = Inr y"
  shows "\<exists>d b. get_graph df reg entered_year = Inr [Figure_donut d, Figure_bar b]"
  using assms by (simp add: get_graph_def compute_info_cast)

lemma get_title_returns:
  "\<exists>p q. get_title reg entered_year = Inr [Children p, Children q]"
  by (simp add: get_title_def Let_def)

lemma graph_2019:
  "get_graph mixed_data ''NSW'' (PyInt 2019) =
     Inr [Figure_donut (generate_donut [(''Mar'', 9 / 2), (''Jan'', 2)] (13 / 2)),
          Figure_bar (generate_bar [(''Mar'', 4), (''Jan'', 2)] 6)]"
  by (simp add: get_graph_def mixed_data_2019)

lemma graph_2020:
  "get_graph mixed_data ''NSW'' (PyInt 2020) =
     Inr [Figure_donut (generate_donut [(''Jan'', 7)] 7),
          Figure_bar (generate_bar [(''Jan'', 9)] 9)]"
  by (simp add: get_graph_def mixed_data_2020)

lemma donuts_differ:
  "generate_donut [(''Mar'', 9 / 2), (''Jan'', 2)] (13 / 2) \<noteq> generate_donut [(''Jan'', 7)] 7"
  by (simp add: generate_donut_def)

lemma show_2019_2020: "show_int 2019 \<noteq> show_int 2020"
  by code_simp

lemmas page_defs = apply_callback_def settled_def react_def register_callbacks_def
  graph_callback_def title_callback_def map_add_def

text \<open>
  C9, as written, fails. The charts and the titles belong to two callbacks, and each
  callback writes its own two outputs when it returns. Starting from the page settled
  on NSW and 2019 and changing the year to 2020: once the title callback alone has
  answered, the pie title is the one for 2020 while the pie chart is still the one for
  2019; once the graph callback alone has answered, it is the other way round.
\<close>

theorem titles_and_charts_update_separately:
  "title_callback \<in> set (register_callbacks mixed_data)
   \<and> graph_callback mixed_data \<in> set (register_callbacks mixed_data)
   \<and> apply_callback title_callback ''NSW'' (PyInt 2020)
         (settled mixed_data ''NSW'' (PyInt 2019)) (''pie-title'', ''children'') =
       settled mixed_data ''NSW'' (PyInt 2020) (''pie-title'', ''children'')
   \<and> apply_callback title_callback ''NSW'' (PyInt 2020)
         (settled mixed_data ''NSW'' (PyInt 2019)) (''pie-chart'', ''figure'') =
       settled mixed_data ''NSW'' (PyInt 2019) (''pie-chart'', ''figure'')
   \<and> apply_callback (graph_callback mixed_data) ''NSW'' (PyInt 2020)
         (settled mixed_data ''NSW'' (PyInt 2019)) (''pie-chart'', ''figure'') =
       settled mixed_data ''NSW'' (PyInt 2020) (''pie-chart'', ''figure'')
   \<and> apply_callback (graph_callback mixed_data) ''NSW'' (PyInt 2020)
         (settled mixed_data ''NSW'' (PyInt 2019)) (''pie-title'', ''children'') =
       settled mixed_data ''NSW'' (PyInt 2019) (''pie-title'', ''children'')
   \<and> settled mixed_data ''NSW'' (PyInt 2019) (''pie-title'', ''children'') \<noteq>
       settled mixed_data ''NSW'' (PyInt 2020) (''pie-title'', ''children'')
   \<and> settled mixed_data ''NSW'' (PyInt 2019) (''pie-chart'', ''figure'') \<noteq>
       settled mixed_data ''NSW'' (PyInt 2020) (''pie-chart'', ''figure'')"
proof -
  have "title_callback \<in> set (register_callbacks mixed_data)"
    and "graph_callback mixed_data \<in> set (register_callbacks mixed_data)"
    by (simp_all add: register_callbacks_def)
  moreover have
    "apply_callback title_callback ''NSW'' (PyInt 2020)
         (settled mixed_data ''NSW'' (PyInt 2019)) (''pie-title'', ''children'') =
       settled mixed_data ''NSW'' (PyInt 2020) (''pie-title'', ''children'')"
    by (simp add: page_defs graph_2019 graph_2020 get_title_def Let_def)
  moreover have
    "apply_callback title_callback ''NSW'' (PyInt 2020)
         (settled mixed_data ''NSW'' (PyInt 2019)) (''pie-chart'', ''figure'') =
       settled mixed_data ''NSW'' (PyInt 2019) (''pie-chart'', ''figure'')"
    by (simp add: page_defs graph_2019 graph_2020 get_title_def Let_def)
  moreover have
    "apply_callback (graph_callback mixed_data) ''NSW'' (PyInt 2020)
         (settled mixed_data ''NSW'' (PyInt 2019)) (''pie-chart'', ''figure'') =
       settled mixed_data ''NSW'' (PyInt 2020) (''pie-chart'', ''figure'')"
    by (simp add: page_defs graph_2019 graph_2020 get_title_def Let_def)
  moreover have
    "apply_callback (graph_callback mixed_data) ''NSW'' (PyInt 2020)
         (settled mixed_data ''NSW'' (PyInt 2019)) (''pie-title'', ''children'') =
       settled mixed_data ''NSW'' (PyInt 2019) (''pie-title'', ''children'')"
    by (simp add: page_defs graph_2019 graph_2020 get_title_def Let_def)
  moreover have
    "settled mixed_data ''NSW'' (PyInt 2019) (''pie-title'', ''children'') \<noteq>
       settled mixed_data ''NSW'' (PyInt 2020) (''pie-title'', ''children'')"
    using show_2019_2020
    by (simp add: page_defs graph_2019 graph_2020 get_title_def Let_def)
  moreover have
    "settled mixed_data ''NSW'' (PyInt 2019) (''pie-chart'', ''figure'') \<noteq>
       settled mixed_data ''NSW'' (PyInt 2020) (''pie-chart'', ''figure'')"
    using donuts_differ
    by (simp add: page_defs graph_2019 graph_2020 get_title_def Let_def)
  ultimately show ?thesis
    by (intro conjI)
qed

text \<open>
  C9, amended. For a year that the cast to an integer accepts, each registered callback
  is one reaction: it brings both of its own outputs to the new selection together and
  leaves every other output as it was. Once both callbacks have answered, in either
  order, all four outputs are those of the new selection.
\<close>

theorem each_callback_updates_its_own_pair:
  assumes "py_int entered_year = Inr y" and "cb \<in> set (register_callbacks df)"
  shows "(\<forall>out \<in> set (outputs cb).
            apply_callback cb reg entered_year pg out = settled df reg entered_year out)
       \<and> (\<forall>out. out \<notin> set (outputs cb) \<longrightarrow> apply_callback cb reg entered_year pg out = pg out)
       \<and> (\<forall>out \<in> set all_outputs.
            react (register_callbacks df) reg entered_year pg out = settled df reg entered_year out
            \<and> react (rev (register_callbacks df)) reg entered_year pg out =
                settled df reg entered_year out)"
proof -
  from get_graph_cast [OF assms(1)] obtain d b
    where g: "get_graph df reg entered_year = Inr [Figure_donut d, Figure_bar b]"
    by blast
  from get_title_returns obtain p q
    where t: "get_title reg entered_year = Inr [Children p, Children q]"
    by blast
  from assms(2) have "cb = graph_callback df \<or> cb = title_callback"
    by (simp add: register_callbacks_def)
  then show ?thesis
  proof
    assume "cb = graph_callback df"
    then show ?thesis
      using g t
      by (simp add: apply_callback_def settled_def react_def register_callbacks_def
          graph_callback_def title_callback_def all_outputs_def map_add_def)
  next
    assume "cb = title_callback"
    then show ?thesis
      using g t
      by (simp add: apply_callback_def settled_def react_def register_callbacks_def
          graph_callback_def title_callback_def all_outputs_def map_add_def)
  qed
qed

theorem each_callback_updates_its_own_pair_witness:
  "py_int (PyInt 2020) = Inr 2020
   \<and> title_callback \<in> set (register_callbacks mixed_data)
   \<and> apply_callback title_callback ''NSW'' (PyInt 2020)
         (settled mixed_data ''NSW'' (PyInt 2019)) (''bar-title'', ''children'') =
       settled mixed_data ''NSW'' (PyInt 2020) (''bar-title'', ''children'')
   \<and> apply_callback title_callback ''NSW'' (PyInt 2020)
         (settled mixed_data ''NSW'' (PyInt 2019)) (''bar-chart'', ''figure'') =
       settled mixed_data ''NSW'' (PyInt 2019) (''bar-chart'', ''figure'')
   \<and> react (register_callbacks mixed_data) ''NSW'' (PyInt 2020)
         (settled mixed_data ''NSW'' (PyInt 2019)) (''bar-chart'', ''figure'') =
       settled mixed_data ''NSW'' (PyInt 2020) (''bar-chart'', ''figure'')"
proof -
  have c: "py_int (PyInt 2020) = Inr 2020" by simp
  have m: "title_callback \<in> set (register_callbacks mixed_data)"
    by (simp add: register_callbacks_def)
  note t = each_callback_updates_its_own_pair
    [OF c m, of "''NSW''" "settled mixed_data ''NSW'' (PyInt 2019)"]
  have "(''bar-title'', ''children'') \<in> set (outputs title_callback)"
    and "(''bar-chart'', ''figure'') \<notin> set (outputs title_callback)"
    and "(''bar-chart'', ''figure'') \<in> set all_outputs"
    by (simp_all add: title_callback_def all_outputs_def)
  with t c m show ?thesis
    by blast
qed

end
